theory Spec2Isabelle
  imports Main "HOL-Library.AList"
begin

section \<open>Python values\<close>

text \<open>
  The adapter in \<^verbatim>\<open>basket/news/backends/braze.py\<close> works on JSON-like Python
  values: \<^verbatim>\<open>None\<close>, booleans, strings, lists and dictionaries with string keys.
  A dictionary is an association list in insertion order (the order
  \<^verbatim>\<open>.items()\<close> iterates in); a lookup takes the first binding of a key.
  Values are compared structurally, which is Python's \<^verbatim>\<open>==\<close> on the strings,
  booleans and \<^verbatim>\<open>None\<close> the compared fields hold. Numbers do not occur in the
  records the adapter maps.
\<close>

datatype jv =
    JNone
  | JBool bool
  | JStr string
  | JList "jv list"
  | JDict "(string \<times> jv) list"

type_synonym dict = "(string \<times> jv) list"

text \<open>Python truthiness (\<^verbatim>\<open>if x:\<close>, \<^verbatim>\<open>x or y\<close>, \<^verbatim>\<open>not x\<close>, \<^verbatim>\<open>bool(x)\<close>).\<close>

fun truthy :: "jv \<Rightarrow> bool" where
  "truthy JNone = False"
| "truthy (JBool b) = b"
| "truthy (JStr s) = (s \<noteq> [])"
| "truthy (JList xs) = (xs \<noteq> [])"
| "truthy (JDict d) = (d \<noteq> [])"

text \<open>\<^verbatim>\<open>d.get(k)\<close> and \<^verbatim>\<open>d.get(k, default)\<close> on a dictionary.\<close>

definition dict_get_default :: "dict \<Rightarrow> string \<Rightarrow> jv \<Rightarrow> jv" where
  "dict_get_default d k dflt = (case map_of d k of None \<Rightarrow> dflt | Some v \<Rightarrow> v)"

definition dict_get :: "dict \<Rightarrow> string \<Rightarrow> jv" where
  "dict_get d k = dict_get_default d k JNone"

text \<open>\<^verbatim>\<open>d[k] = v\<close>: replaces the value in place, or appends a new key.\<close>

definition dict_set :: "dict \<Rightarrow> string \<Rightarrow> jv \<Rightarrow> dict" where
  "dict_set d k v = AList.update k v d"

text \<open>\<^verbatim>\<open>a | b\<close>: the bindings of \<open>b\<close> are stored into \<open>a\<close> one after the other.\<close>

definition dict_merge :: "dict \<Rightarrow> dict \<Rightarrow> dict" where
  "dict_merge a b = foldl (\<lambda>d kv. dict_set d (fst kv) (snd kv)) a b"

text \<open>\<^verbatim>\<open>x or {}\<close> for an optional dictionary argument.\<close>

definition or_empty :: "dict option \<Rightarrow> dict" where
  "or_empty x = (case x of None \<Rightarrow> [] | Some d \<Rightarrow> d)"

section \<open>Exceptions\<close>

datatype error =
    ValueError string
  | BrazeBadRequestError string
  | BrazeUnauthorizedError string
  | BrazeForbiddenError string
  | BrazeNotFoundError string
  | BrazeRateLimitError string
  | BrazeInternalServerError string
  | BrazeUserNotFoundByEmailError
  | BrazeClientError string
  | NotImplementedError
  | AttributeError
  | KeyError
  | IndexError
  | TypeError
  | JSONDecodeError
  | RequestException

definition ebind :: "error + 'a \<Rightarrow> ('a \<Rightarrow> error + 'b) \<Rightarrow> error + 'b" where
  "ebind m f = (case m of Inl e \<Rightarrow> Inl e | Inr x \<Rightarrow> f x)"

text \<open>
  \<^verbatim>\<open>x.get(k, default)\<close> on an arbitrary value: only a dictionary has \<^verbatim>\<open>.get\<close>.
\<close>

definition py_get :: "jv \<Rightarrow> string \<Rightarrow> jv \<Rightarrow> error + jv" where
  "py_get x k dflt = (case x of JDict d \<Rightarrow> Inr (dict_get_default d k dflt) | _ \<Rightarrow> Inl AttributeError)"

text \<open>\<^verbatim>\<open>x[k]\<close> with a string key \<open>k\<close>.\<close>

definition subscript :: "jv \<Rightarrow> string \<Rightarrow> error + jv" where
  "subscript x k =
     (case x of
        JDict d \<Rightarrow> (case map_of d k of None \<Rightarrow> Inl KeyError | Some v \<Rightarrow> Inr v)
      | _ \<Rightarrow> Inl TypeError)"

text \<open>\<^verbatim>\<open>x[0]\<close>\<close>

definition index0 :: "jv \<Rightarrow> error + jv" where
  "index0 x =
     (case x of
        JList xs \<Rightarrow> (case xs of [] \<Rightarrow> Inl IndexError | y # _ \<Rightarrow> Inr y)
      | JStr s \<Rightarrow> (case s of [] \<Rightarrow> Inl IndexError | c # _ \<Rightarrow> Inr (JStr [c]))
      | JDict d \<Rightarrow> Inl KeyError
      | _ \<Rightarrow> Inl TypeError)"

text \<open>\<^verbatim>\<open>for y in x\<close>: the elements a loop over \<open>x\<close> visits.\<close>

definition py_iter :: "jv \<Rightarrow> error + jv list" where
  "py_iter x =
     (case x of
        JList xs \<Rightarrow> Inr xs
      | JDict d \<Rightarrow> Inr (map (\<lambda>kv. JStr (fst kv)) d)
      | JStr s \<Rightarrow> Inr (map (\<lambda>c. JStr [c]) s)
      | _ \<Rightarrow> Inl TypeError)"

section \<open>Collaborators\<close>

text \<open>
  The module imports \<^verbatim>\<open>process_country\<close>, \<^verbatim>\<open>process_lang\<close>,
  \<^verbatim>\<open>slug_to_vendor_id\<close>, \<^verbatim>\<open>vendor_id_to_slug\<close> and \<^verbatim>\<open>is_valid_uuid\<close> from
  other modules, reads the clock, parses and joins URLs with the standard library and
  talks to the vendor over HTTP. All of these are parameters of the model.
  The parameter \<open>http\<close> is the call of \<^verbatim>\<open>requests.get\<close> or \<^verbatim>\<open>requests.post\<close>:
  given the requests issued before, it hands back the response the library returns
  (the last one, when the library followed redirects), or no response at all (a
  transport failure).
\<close>

record urlbits =
  scheme :: string
  netloc :: string

record http_request =
  req_method :: string
  req_url :: string
  req_headers :: "(string \<times> string) list"
  req_params :: jv
  req_data :: jv

record http_response =
  status_code :: int
  body_text :: string
  body_json :: "jv option"

record env =
  process_country :: "jv \<Rightarrow> jv"
  process_lang :: "jv \<Rightarrow> jv"
  slug_to_vendor_id :: "string \<Rightarrow> jv"
  vendor_id_to_slug :: "jv \<Rightarrow> jv"
  is_valid_uuid :: "jv \<Rightarrow> bool"
  now :: string
  urlparse :: "string \<Rightarrow> urlbits"
  urlunparse :: "string \<Rightarrow> string \<Rightarrow> string"
  urljoin :: "string \<Rightarrow> string \<Rightarrow> string"
  http :: "http_request list \<Rightarrow> http_request \<Rightarrow> http_response option"

section \<open>The transport client\<close>

datatype BrazeEndpoint =
    CAMPAIGNS_TRIGGER_SEND
  | USERS_EXPORT_IDS
  | USERS_TRACK
  | USERS_DELETE
  | SUBSCRIPTION_USER_STATUS

fun endpoint_value :: "BrazeEndpoint \<Rightarrow> string" where
  "endpoint_value CAMPAIGNS_TRIGGER_SEND = ''/campaigns/trigger/send''"
| "endpoint_value USERS_EXPORT_IDS = ''/users/export/ids''"
| "endpoint_value USERS_TRACK = ''/users/track''"
| "endpoint_value USERS_DELETE = ''/users/delete''"
| "endpoint_value SUBSCRIPTION_USER_STATUS = ''/subscription/user/status''"

record BrazeInterface =
  api_url :: string
  api_key :: "string option"
  active :: bool

text \<open>
  \<^verbatim>\<open>BrazeInterface.__init__\<close>: the result is the client and the warnings it emitted.
\<close>

definition BrazeInterface_init :: "env \<Rightarrow> string \<Rightarrow> string option \<Rightarrow> error + (BrazeInterface \<times> string list)" where
  "BrazeInterface_init e base_url key =
     (let bits = urlparse e base_url in
      if scheme bits = [] \<or> netloc bits = [] then Inl (ValueError ''Invalid base_url'')
      else
        let is_set = (case key of None \<Rightarrow> False | Some k \<Rightarrow> k \<noteq> []) in
        Inr (\<lparr>api_url = urlunparse e (scheme bits) (netloc bits), api_key = key, active = is_set\<rparr>,
             if is_set then [] else [''Braze API key is not configured'']))"

text \<open>The request \<^verbatim>\<open>_request\<close> sends when the client is active.\<close>

definition build_request :: "env \<Rightarrow> BrazeInterface \<Rightarrow> BrazeEndpoint \<Rightarrow> jv \<Rightarrow> string \<Rightarrow> jv \<Rightarrow> http_request" where
  "build_request e c endpoint data meth params =
     (let url = urljoin e (api_url c) (endpoint_value endpoint);
          headers = [(''Authorization'', ''Bearer '' @ (case api_key c of None \<Rightarrow> ''None'' | Some k \<Rightarrow> k)),
                     (''Content-Type'', ''application/json'')]
      in if meth = ''GET''
         then \<lparr>req_method = ''GET'', req_url = url, req_headers = headers, req_params = params, req_data = data\<rparr>
         else \<lparr>req_method = ''POST'', req_url = url, req_headers = headers, req_params = JNone, req_data = data\<rparr>)"

text \<open>
  \<^verbatim>\<open>_request\<close>, threading the list of requests issued so far.
  \<^verbatim>\<open>response.raise_for_status()\<close> raises \<^verbatim>\<open>HTTPError\<close> for the status codes
  400 to 599 and for no other; a failure of the transport raises an exception that is
  not an \<^verbatim>\<open>HTTPError\<close> and passes through; \<^verbatim>\<open>response.json()\<close> raises when
  the body is not JSON. The printing under \<^verbatim>\<open>settings.DEBUG\<close> is left out.
\<close>

definition request :: "env \<Rightarrow> BrazeInterface \<Rightarrow> BrazeEndpoint \<Rightarrow> jv \<Rightarrow> string \<Rightarrow> jv \<Rightarrow> http_request list
    \<Rightarrow> (error + jv) \<times> http_request list" where
  "request e c endpoint data meth params log =
     (if \<not> active c then (Inr JNone, log)
      else
        let req = build_request e c endpoint data meth params in
        case http e log req of
          None \<Rightarrow> (Inl RequestException, log @ [req])
        | Some response \<Rightarrow>
            if 400 \<le> status_code response \<and> status_code response < 600 then
              let status = status_code response; message = body_text response in
              (Inl (if status = 400 then BrazeBadRequestError message
                    else if status = 401 then BrazeUnauthorizedError message
                    else if status = 403 then BrazeForbiddenError message
                    else if status = 404 then BrazeNotFoundError message
                    else if status = 429 then BrazeRateLimitError message
                    else if status \<ge> 500 \<and> status \<le> 599 then BrazeInternalServerError message
                    else BrazeClientError message),
               log @ [req])
            else
              (case body_json response of
                 None \<Rightarrow> (Inl JSONDecodeError, log @ [req])
               | Some j \<Rightarrow> (Inr j, log @ [req])))"

definition email_alias :: "jv \<Rightarrow> jv" where
  "email_alias email = JDict [(''alias_name'', email), (''alias_label'', JStr ''email'')]"

text \<open>
  \<^verbatim>\<open>user_data and user_data.pop(k, None)\<close>: the value, and \<^verbatim>\<open>user_data\<close> after the
  pop.
\<close>

definition and_pop :: "dict option \<Rightarrow> string \<Rightarrow> jv \<times> dict option" where
  "and_pop user_data k =
     (case user_data of
        None \<Rightarrow> (JNone, None)
      | Some d \<Rightarrow> if d = [] then (JDict [], Some d)
                  else (dict_get d k, Some (AList.delete k d)))"

text \<open>The body \<^verbatim>\<open>track_user\<close> builds (its local \<^verbatim>\<open>data\<close>).\<close>

definition track_user_data :: "env \<Rightarrow> jv \<Rightarrow> jv \<Rightarrow> dict option \<Rightarrow> dict" where
  "track_user_data e email event user_data =
     (let (email_id, user_data1) = and_pop user_data ''email_id'';
          (basket_token, user_data2) = and_pop user_data1 ''basket_token'';
          attributes =
            (if truthy email_id then
               [(''email'', email), (''external_id'', email_id), (''basket_token'', basket_token)]
             else
               (let attributes = [(''email'', email), (''_update_existing_only'', JBool False),
                                  (''user_alias'', email_alias email)]
                in if truthy basket_token then dict_set attributes ''basket_token'' basket_token
                   else attributes));
          data = [(''attributes'', JList [JDict attributes])]
      in if truthy event then
           (let events = [(''name'', event), (''time'', JStr (now e))];
                events = (if truthy email_id then dict_set events ''external_id'' email_id
                          else dict_set events ''user_alias'' (email_alias email))
            in dict_set data ''events'' (JList [JDict events]))
         else data)"

definition track_user :: "env \<Rightarrow> BrazeInterface \<Rightarrow> jv \<Rightarrow> jv \<Rightarrow> dict option \<Rightarrow> http_request list
    \<Rightarrow> (error + jv) \<times> http_request list" where
  "track_user e c email event user_data log =
     request e c USERS_TRACK (JDict (track_user_data e email event user_data)) ''POST'' JNone log"

definition export_users_data :: "jv \<Rightarrow> jv \<Rightarrow> jv \<Rightarrow> dict" where
  "export_users_data email fields_to_export external_id =
     (let data = [(''user_aliases'', JList [email_alias email]), (''email_address'', email)];
          data = (if truthy external_id then dict_set data ''external_ids'' (JList [external_id]) else data)
      in if truthy fields_to_export then dict_set data ''fields_to_export'' fields_to_export else data)"

definition export_users :: "env \<Rightarrow> BrazeInterface \<Rightarrow> jv \<Rightarrow> jv \<Rightarrow> jv \<Rightarrow> http_request list
    \<Rightarrow> (error + jv) \<times> http_request list" where
  "export_users e c email fields_to_export external_id log =
     request e c USERS_EXPORT_IDS (JDict (export_users_data email fields_to_export external_id)) ''POST'' JNone log"

definition delete_user_data :: "jv \<Rightarrow> dict" where
  "delete_user_data email =
     [(''email_addresses'',
       JList [JDict [(''email'', email), (''prioritization'', JList [JStr ''most_recently_updated''])]])]"

definition delete_user :: "env \<Rightarrow> BrazeInterface \<Rightarrow> jv \<Rightarrow> http_request list
    \<Rightarrow> (error + jv) \<times> http_request list" where
  "delete_user e c email log = request e c USERS_DELETE (JDict (delete_user_data email)) ''POST'' JNone log"

definition send_campaign :: "env \<Rightarrow> BrazeInterface \<Rightarrow> jv \<Rightarrow> jv \<Rightarrow> http_request list
    \<Rightarrow> (error + jv) \<times> http_request list" where
  "send_campaign e c email campaign_id log =
     request e c CAMPAIGNS_TRIGGER_SEND
       (JDict [(''campaign_id'', campaign_id), (''broadcast'', JBool False),
               (''recipients'',
                JList [JDict [(''user_alias'',
                               JDict [(''alias_label'', JStr ''email''), (''alias_name'', email)])]])])
       ''POST'' JNone log"

definition get_user_subscriptions :: "env \<Rightarrow> BrazeInterface \<Rightarrow> jv \<Rightarrow> jv \<Rightarrow> http_request list
    \<Rightarrow> (error + jv) \<times> http_request list" where
  "get_user_subscriptions e c external_id email log =
     request e c SUBSCRIPTION_USER_STATUS JNone ''GET''
       (JDict [(''external_id'', external_id), (''email'', email)]) log"

definition save_user :: "env \<Rightarrow> BrazeInterface \<Rightarrow> jv \<Rightarrow> http_request list
    \<Rightarrow> (error + jv) \<times> http_request list" where
  "save_user e c braze_user_data log = request e c USERS_TRACK braze_user_data ''POST'' JNone log"

section \<open>The adapter\<close>

text \<open>
  The list comprehension of \<^verbatim>\<open>from_vendor\<close>:
  \<^verbatim>\<open>[subscription["id"] for subscription in subscription_groups if subscription["status"] == "Subscribed"]\<close>
\<close>

fun subscription_ids_of :: "jv list \<Rightarrow> error + jv list" where
  "subscription_ids_of [] = Inr []"
| "subscription_ids_of (subscription # rest) =
     (case subscript subscription ''status'' of
        Inl err \<Rightarrow> Inl err
      | Inr status \<Rightarrow>
          if status = JStr ''Subscribed'' then
            (case subscript subscription ''id'' of
               Inl err \<Rightarrow> Inl err
             | Inr i \<Rightarrow> (case subscription_ids_of rest of Inl err \<Rightarrow> Inl err | Inr ids \<Rightarrow> Inr (i # ids)))
          else subscription_ids_of rest)"

text \<open>\<^verbatim>\<open>a or x.get(k, default)\<close>: the right operand is evaluated only when \<open>a\<close> is falsy.\<close>

definition or_get :: "jv \<Rightarrow> jv \<Rightarrow> string \<Rightarrow> jv \<Rightarrow> error + jv" where
  "or_get a x k dflt = (if truthy a then Inr a else py_get x k dflt)"

text \<open>
  \<^verbatim>\<open>from_vendor\<close> on a vendor record that is a dictionary \<open>b\<close>; on any other value
  the first \<^verbatim>\<open>braze_user_data.get\<close> raises.
\<close>

definition from_vendor_dict :: "env \<Rightarrow> dict \<Rightarrow> jv \<Rightarrow> error + dict" where
  "from_vendor_dict e b subscription_groups =
          ebind (py_get (dict_get_default b ''custom_attributes'' (JDict [])) ''user_attributes_v1'' (JList [JDict []])) (\<lambda>v1.
          ebind (index0 v1) (\<lambda>user_attributes.
          ebind (py_iter subscription_groups) (\<lambda>groups.
          ebind (subscription_ids_of groups) (\<lambda>subscription_ids.
          let newsletter_slugs = filter truthy (map (vendor_id_to_slug e) subscription_ids) in
          ebind (subscript (JDict b) ''email'') (\<lambda>email.
          ebind (subscript (JDict b) ''external_id'') (\<lambda>external_id.
          ebind (subscript (JDict b) ''braze_id'') (\<lambda>braze_id.
          ebind (or_get (dict_get b ''country'') user_attributes ''mailing_country'' JNone) (\<lambda>country.
          ebind (or_get (dict_get b ''language'') user_attributes ''email_lang'' (JStr ''en'')) (\<lambda>lang.
          ebind (py_get user_attributes ''created_at'' JNone) (\<lambda>created_date.
          ebind (py_get user_attributes ''updated_at'' JNone) (\<lambda>last_modified_date.
          ebind (py_get user_attributes ''basket_token'' JNone) (\<lambda>token.
          ebind (py_get user_attributes ''fxa_first_service'' JNone) (\<lambda>fxa_service.
          ebind (py_get user_attributes ''fxa_lang'' JNone) (\<lambda>fxa_lang.
          ebind (py_get user_attributes ''fxa_primary_email'' JNone) (\<lambda>fxa_primary_email.
          ebind (py_get user_attributes ''has_fxa'' JNone) (\<lambda>has_fxa.
          ebind (if truthy has_fxa then py_get user_attributes ''fxa_created_at'' JNone else Inr JNone) (\<lambda>fxa_create_date.
          Inr [(''email'', email),
               (''email_id'', external_id),
               (''id'', braze_id),
               (''first_name'', dict_get b ''first_name''),
               (''last_name'', dict_get b ''last_name''),
               (''country'', country),
               (''lang'', lang),
               (''newsletters'', JList newsletter_slugs),
               (''created_date'', created_date),
               (''last_modified_date'', last_modified_date),
               (''optin'', JBool (dict_get b ''email_subscribe'' = JStr ''opted_in'')),
               (''optout'', JBool (dict_get b ''email_subscribe'' = JStr ''unsubscribed'')),
               (''token'', token),
               (''fxa_service'', fxa_service),
               (''fxa_lang'', fxa_lang),
               (''fxa_primary_email'', fxa_primary_email),
               (''fxa_create_date'', fxa_create_date)])))))))))))))))))"

definition from_vendor :: "env \<Rightarrow> jv \<Rightarrow> jv \<Rightarrow> error + dict" where
  "from_vendor e braze_user_data subscription_groups =
     (case braze_user_data of
        JDict b \<Rightarrow> from_vendor_dict e b subscription_groups
      | _ \<Rightarrow> Inl AttributeError)"

text \<open>
  The loop of \<^verbatim>\<open>to_vendor\<close> over \<^verbatim>\<open>update_data["newsletters"].items()\<close>.
\<close>

fun subscription_groups_of :: "env \<Rightarrow> dict \<Rightarrow> jv list" where
  "subscription_groups_of e [] = []"
| "subscription_groups_of e ((slug, is_subscribed) # rest) =
     (let vendor_id = slug_to_vendor_id e slug in
      if is_valid_uuid e vendor_id then
        JDict [(''subscription_group_id'', vendor_id),
               (''subscription_state'', JStr (if truthy is_subscribed then ''subscribed'' else ''unsubscribed''))]
          # subscription_groups_of e rest
      else subscription_groups_of e rest)"

text \<open>
  \<^verbatim>\<open>to_vendor\<close>. \<^verbatim>\<open>update_data.get("newsletters")\<close> is an attribute access on
  \<^verbatim>\<open>update_data\<close> itself, which raises \<^verbatim>\<open>AttributeError\<close> when it is \<^verbatim>\<open>None\<close>.
\<close>

definition to_vendor :: "env \<Rightarrow> dict option \<Rightarrow> dict option \<Rightarrow> dict option \<Rightarrow> jv \<Rightarrow> error + dict" where
  "to_vendor e basket_user_data update_data custom_attributes events =
     (let existing_user_data = or_empty basket_user_data;
          updated_user_data = dict_merge existing_user_data (or_empty update_data);
          country = process_country e (dict_get updated_user_data ''country'');
          language = process_lang e (dict_get updated_user_data ''lang'')
      in case update_data of
           None \<Rightarrow> Inl AttributeError
         | Some u \<Rightarrow>
             (let subscription_groups =
                    (case dict_get u ''newsletters'' of
                       JDict newsletters \<Rightarrow> subscription_groups_of e newsletters
                     | _ \<Rightarrow> []);
                  user_attributes =
                    [(''external_id'', dict_get updated_user_data ''email_id''),
                     (''email'', dict_get updated_user_data ''email''),
                     (''update_timestamp'', JStr (now e)),
                     (''_update_existing_only'', JBool True),
                     (''email_subscribe'',
                        JStr (if truthy (dict_get updated_user_data ''optin'') then ''opted_in''
                              else if truthy (dict_get updated_user_data ''optout'') then ''unsubscribed''
                              else ''subscribed'')),
                     (''subscription_groups'', JList subscription_groups),
                     (''user_attributes_v1'',
                        JList [JDict
                          [(''basket_token'', dict_get updated_user_data ''token''),
                           (''created_at'',
                              JDict [(''$time'', dict_get_default updated_user_data ''created_date'' (JStr (now e)))]),
                           (''email_lang'', language),
                           (''mailing_country'', country),
                           (''updated_at'', JDict [(''$time'', JStr (now e))]),
                           (''has_fxa'', JBool (truthy (dict_get updated_user_data ''fxa_create_date''))),
                           (''fxa_created_at'', dict_get updated_user_data ''fxa_create_date''),
                           (''fxa_first_service'', dict_get updated_user_data ''fxa_service''),
                           (''fxa_lang'', dict_get updated_user_data ''fxa_lang''),
                           (''fxa_primary_email'', dict_get updated_user_data ''fxa_primary_email'')]])];
                  user_attributes =
                    (if country \<noteq> dict_get existing_user_data ''country''
                     then dict_set user_attributes ''country'' country else user_attributes);
                  user_attributes =
                    (if language \<noteq> dict_get existing_user_data ''language''
                     then dict_set user_attributes ''language'' language else user_attributes);
                  first_name = dict_get updated_user_data ''first_name'';
                  user_attributes =
                    (if first_name \<noteq> dict_get existing_user_data ''first_name''
                     then dict_set user_attributes ''first_name'' first_name else user_attributes);
                  last_name = dict_get updated_user_data ''last_name'';
                  user_attributes =
                    (if last_name \<noteq> dict_get existing_user_data ''last_name''
                     then dict_set user_attributes ''last_name'' last_name else user_attributes);
                  braze_data =
                    [(''attributes'', JList [JDict (dict_merge user_attributes (or_empty custom_attributes))])]
              in Inr (if truthy events then dict_set braze_data ''events'' events else braze_data)))"

definition fields_to_export :: jv where
  "fields_to_export =
     JList [JStr ''braze_id'', JStr ''country'', JStr ''created_at'', JStr ''custom_attributes'',
            JStr ''email'', JStr ''email_subscribe'', JStr ''external_id'', JStr ''first_name'',
            JStr ''language'', JStr ''last_name'']"

text \<open>
  \<^verbatim>\<open>Braze.get\<close>: \<^verbatim>\<open>None\<close> for "no such user", a local record otherwise.
\<close>

definition get :: "env \<Rightarrow> BrazeInterface \<Rightarrow> jv \<Rightarrow> jv \<Rightarrow> jv \<Rightarrow> jv \<Rightarrow> http_request list
    \<Rightarrow> (error + dict option) \<times> http_request list" where
  "get e c email_id token email fxa_id log =
     (case export_users e c email fields_to_export token log of
        (Inl err, log1) \<Rightarrow> (Inl err, log1)
      | (Inr user_response, log1) \<Rightarrow>
          (case subscript user_response ''users'' of
             Inl err \<Rightarrow> (Inl err, log1)
           | Inr users \<Rightarrow>
               if truthy users then
                 (case ebind (index0 users) (\<lambda>user_data.
                         ebind (subscript user_data ''external_id'') (\<lambda>external_id.
                         Inr (user_data, external_id))) of
                    Inl err \<Rightarrow> (Inl err, log1)
                  | Inr (user_data, external_id) \<Rightarrow>
                      (case get_user_subscriptions e c external_id email log1 of
                         (Inl err, log2) \<Rightarrow> (Inl err, log2)
                       | (Inr subscription_response, log2) \<Rightarrow>
                           (ebind (py_get subscription_response ''users'' (JList [JDict []])) (\<lambda>us.
                            ebind (index0 us) (\<lambda>u0.
                            ebind (py_get u0 ''subscription_groups'' (JList [])) (\<lambda>subscriptions.
                            ebind (from_vendor e user_data subscriptions) (\<lambda>d. Inr (Some d))))),
                            log2)))
               else (Inr None, log1)))"

text \<open>
  \<^verbatim>\<open>data.email\<close> on a dictionary: a \<^verbatim>\<open>dict\<close> has no attribute of that name, so the
  attribute access raises.
\<close>

definition getattr_dict :: "dict \<Rightarrow> string \<Rightarrow> error + jv" where
  "getattr_dict d name = Inl AttributeError"

definition add :: "env \<Rightarrow> BrazeInterface \<Rightarrow> dict \<Rightarrow> http_request list
    \<Rightarrow> (error + jv) \<times> http_request list" where
  "add e c data log =
     (let custom_attributes = [(''_update_existing_only'', JBool False)] in
      case (if \<not> truthy (dict_get data ''email_id'')
            then ebind (getattr_dict data ''email'') (\<lambda>email.
                   Inr (dict_set custom_attributes ''user_alias'' (email_alias email)))
            else Inr custom_attributes) of
        Inl err \<Rightarrow> (Inl err, log)
      | Inr custom_attributes \<Rightarrow>
          (case to_vendor e None (Some data) (Some custom_attributes) JNone of
             Inl err \<Rightarrow> (Inl err, log)
           | Inr braze_user_data \<Rightarrow>
               (case save_user e c (JDict braze_user_data) log of
                  (Inl err, log1) \<Rightarrow> (Inl err, log1)
                | (Inr r, log1) \<Rightarrow> (Inr JNone, log1))))"

definition update :: "env \<Rightarrow> BrazeInterface \<Rightarrow> dict \<Rightarrow> dict \<Rightarrow> http_request list
    \<Rightarrow> (error + jv) \<times> http_request list" where
  "update e c existing_data update_data log = (Inl NotImplementedError, log)"

definition update_by_fxa_id :: "env \<Rightarrow> BrazeInterface \<Rightarrow> jv \<Rightarrow> dict \<Rightarrow> http_request list
    \<Rightarrow> (error + jv) \<times> http_request list" where
  "update_by_fxa_id e c fxa_id update_data log = (Inl NotImplementedError, log)"

definition update_by_token :: "env \<Rightarrow> BrazeInterface \<Rightarrow> jv \<Rightarrow> dict \<Rightarrow> http_request list
    \<Rightarrow> (error + jv) \<times> http_request list" where
  "update_by_token e c token update_data log = (Inl NotImplementedError, log)"

text \<open>
  \<^verbatim>\<open>Braze.delete\<close>. \<^verbatim>\<open>not data\<close> holds for \<^verbatim>\<open>None\<close> and for an empty record.
\<close>

definition delete :: "env \<Rightarrow> BrazeInterface \<Rightarrow> jv \<Rightarrow> http_request list
    \<Rightarrow> (error + dict list) \<times> http_request list" where
  "delete e c email log =
     (case get e c JNone JNone email JNone log of
        (Inl err, log1) \<Rightarrow> (Inl err, log1)
      | (Inr data, log1) \<Rightarrow>
          if or_empty data = [] then (Inl BrazeUserNotFoundByEmailError, log1)
          else
            (case delete_user e c email log1 of
               (Inl err, log2) \<Rightarrow> (Inl err, log2)
             | (Inr r, log2) \<Rightarrow> (Inr [or_empty data], log2)))"

section \<open>The pieces of \<^verbatim>\<open>to_vendor\<close>\<close>

text \<open>
  Names for the parts of \<^verbatim>\<open>to_vendor\<close>, for the proofs: the dictionary literal
  \<^verbatim>\<open>user_attributes\<close>, the statement
  \<^verbatim>\<open>if v != existing_user_data.get(k): user_attributes[k] = v\<close> of the billable
  fields, the translation of \<^verbatim>\<open>update_data["newsletters"]\<close>, and the attributes
  after the four billable fields were handled. Lemma \<open>to_vendor_Some\<close> shows that
  \<^verbatim>\<open>to_vendor\<close> is their composition.
\<close>

definition user_attributes_of :: "env \<Rightarrow> dict \<Rightarrow> jv list \<Rightarrow> jv \<Rightarrow> jv \<Rightarrow> dict" where
  "user_attributes_of e updated_user_data subscription_groups language country =
                    [(''external_id'', dict_get updated_user_data ''email_id''),
                     (''email'', dict_get updated_user_data ''email''),
                     (''update_timestamp'', JStr (now e)),
                     (''_update_existing_only'', JBool True),
                     (''email_subscribe'',
                        JStr (if truthy (dict_get updated_user_data ''optin'') then ''opted_in''
                              else if truthy (dict_get updated_user_data ''optout'') then ''unsubscribed''
                              else ''subscribed'')),
                     (''subscription_groups'', JList subscription_groups),
                     (''user_attributes_v1'',
                        JList [JDict
                          [(''basket_token'', dict_get updated_user_data ''token''),
                           (''created_at'',
                              JDict [(''$time'', dict_get_default updated_user_data ''created_date'' (JStr (now e)))]),
                           (''email_lang'', language),
                           (''mailing_country'', country),
                           (''updated_at'', JDict [(''$time'', JStr (now e))]),
                           (''has_fxa'', JBool (truthy (dict_get updated_user_data ''fxa_create_date''))),
                           (''fxa_created_at'', dict_get updated_user_data ''fxa_create_date''),
                           (''fxa_first_service'', dict_get updated_user_data ''fxa_service''),
                           (''fxa_lang'', dict_get updated_user_data ''fxa_lang''),
                           (''fxa_primary_email'', dict_get updated_user_data ''fxa_primary_email'')]])]"

definition set_if_changed :: "string \<Rightarrow> jv \<Rightarrow> jv \<Rightarrow> dict \<Rightarrow> dict" where
  "set_if_changed k v stored user_attributes =
     (if v \<noteq> stored then dict_set user_attributes k v else user_attributes)"

definition newsletters_groups :: "env \<Rightarrow> dict \<Rightarrow> jv list" where
  "newsletters_groups e u =
     (case dict_get u ''newsletters'' of
        JDict newsletters \<Rightarrow> subscription_groups_of e newsletters
      | _ \<Rightarrow> [])"

definition billable_attributes :: "env \<Rightarrow> dict \<Rightarrow> dict \<Rightarrow> dict" where
  "billable_attributes e existing u =
     set_if_changed ''last_name'' (dict_get (dict_merge existing u) ''last_name'') (dict_get existing ''last_name'')
      (set_if_changed ''first_name'' (dict_get (dict_merge existing u) ''first_name'') (dict_get existing ''first_name'')
        (set_if_changed ''language'' (process_lang e (dict_get (dict_merge existing u) ''lang'')) (dict_get existing ''language'')
          (set_if_changed ''country'' (process_country e (dict_get (dict_merge existing u) ''country'')) (dict_get existing ''country'')
            (user_attributes_of e (dict_merge existing u) (newsletters_groups e u)
               (process_lang e (dict_get (dict_merge existing u) ''lang''))
               (process_country e (dict_get (dict_merge existing u) ''country''))))))"

section \<open>The requests of \<^verbatim>\<open>delete\<close>\<close>

text \<open>
  The request \<^verbatim>\<open>get(email=email)\<close> sends to the export endpoint, and the request
  \<^verbatim>\<open>delete_user(email)\<close> sends to the delete endpoint.
\<close>

definition export_request :: "env \<Rightarrow> BrazeInterface \<Rightarrow> jv \<Rightarrow> http_request" where
  "export_request e c email =
     build_request e c USERS_EXPORT_IDS (JDict (export_users_data email fields_to_export JNone)) ''POST'' JNone"

definition delete_request :: "env \<Rightarrow> BrazeInterface \<Rightarrow> jv \<Rightarrow> http_request" where
  "delete_request e c email =
     build_request e c USERS_DELETE (JDict (delete_user_data email)) ''POST'' JNone"

section \<open>Reading a payload\<close>

text \<open>
  The single object in the \<^verbatim>\<open>"attributes"\<close> list of a payload, and the value it
  binds to a key (\<open>None\<close> when the key is not in the object, or no payload was
  produced).
\<close>

definition payload_attributes :: "error + dict \<Rightarrow> dict option" where
  "payload_attributes r =
     (case r of
        Inl err \<Rightarrow> None
      | Inr p \<Rightarrow> (case dict_get p ''attributes'' of JList [JDict a] \<Rightarrow> Some a | _ \<Rightarrow> None))"

definition attribute_of :: "error + dict \<Rightarrow> string \<Rightarrow> jv option" where
  "attribute_of r k = (case payload_attributes r of None \<Rightarrow> None | Some a \<Rightarrow> map_of a k)"

section \<open>The newsletters rule in the words of the specification\<close>

text \<open>
  "Filter subscription groups to status Subscribed, map each id through the
  vendor-id-to-slug lookup, drop unmapped ids, preserve the order of the vendor
  response." An id is unmapped when the lookup answers \<^verbatim>\<open>None\<close>.
\<close>

definition group_field :: "string \<Rightarrow> jv \<Rightarrow> jv" where
  "group_field k g = (case g of JDict d \<Rightarrow> dict_get d k | _ \<Rightarrow> JNone)"

definition spec_newsletters :: "(jv \<Rightarrow> jv) \<Rightarrow> jv list \<Rightarrow> jv list" where
  "spec_newsletters lookup groups =
     filter (\<lambda>slug. slug \<noteq> JNone)
       (map lookup
         (map (group_field ''id'')
           (filter (\<lambda>g. group_field ''status'' g = JStr ''Subscribed'') groups)))"

section \<open>Fixtures of the test suite\<close>

text \<open>
  The records of \<^verbatim>\<open>basket/news/tests/test_braze.py\<close>, used to run the model on
  concrete inputs.
\<close>

definition mock_braze_user_data :: dict where
  "mock_braze_user_data =
     [(''email'', JStr ''test@example.com''),
      (''external_id'', JStr ''123''),
      (''braze_id'', JStr ''456''),
      (''first_name'', JStr ''Test''),
      (''last_name'', JStr ''User''),
      (''country'', JStr ''US''),
      (''language'', JStr ''en''),
      (''email_subscribe'', JStr ''opted_in''),
      (''custom_attributes'',
         JDict [(''user_attributes_v1'',
           JList [JDict
             [(''mailing_country'', JStr ''us''),
              (''email_lang'', JStr ''en''),
              (''created_at'', JStr ''2022-01-01''),
              (''updated_at'', JStr ''2022-02-01''),
              (''basket_token'', JStr ''abc''),
              (''fxa_first_service'', JStr ''test''),
              (''fxa_lang'', JStr ''en''),
              (''fxa_primary_email'', JStr ''test2@example.com''),
              (''fxa_created_at'', JStr ''2022-01-02''),
              (''has_fxa'', JBool True)]])])]"

definition mock_basket_user_data :: dict where
  "mock_basket_user_data =
     [(''email'', JStr ''test@example.com''),
      (''email_id'', JStr ''123''),
      (''id'', JStr ''456''),
      (''first_name'', JStr ''Test''),
      (''last_name'', JStr ''User''),
      (''country'', JStr ''US''),
      (''lang'', JStr ''en''),
      (''newsletters'', JList [JStr ''foo-news'']),
      (''created_date'', JStr ''2022-01-01''),
      (''last_modified_date'', JStr ''2022-02-01''),
      (''optin'', JBool True),
      (''optout'', JBool False),
      (''token'', JStr ''abc''),
      (''fxa_service'', JStr ''test''),
      (''fxa_lang'', JStr ''en''),
      (''fxa_primary_email'', JStr ''test2@example.com''),
      (''fxa_create_date'', JStr ''2022-01-02'')]"

definition foo_news_id :: string where
  "foo_news_id = ''234c9b4a-1785-4cd5-b839-5dbc134982eb''"

definition bar_news_id :: string where
  "bar_news_id = ''78fe6671-9f94-48bd-aaf3-7e873536c3e6''"

definition mock_braze_user_subscription_groups :: "jv list" where
  "mock_braze_user_subscription_groups =
     [JDict [(''id'', JStr foo_news_id), (''status'', JStr ''Subscribed'')],
      JDict [(''id'', JStr bar_news_id), (''status'', JStr ''Unsubscribed'')]]"

text \<open>
  A second response: two subscribed groups around one the registry does not know and
  one that is unsubscribed.
\<close>

definition mixed_subscription_groups :: "jv list" where
  "mixed_subscription_groups =
     [JDict [(''id'', JStr bar_news_id), (''status'', JStr ''Subscribed'')],
      JDict [(''id'', JStr ''00000000-0000-0000-0000-000000000000''), (''status'', JStr ''Subscribed'')],
      JDict [(''id'', JStr foo_news_id), (''status'', JStr ''Unsubscribed'')],
      JDict [(''id'', JStr foo_news_id), (''status'', JStr ''Subscribed'')]]"

text \<open>The two lookups of \<^verbatim>\<open>mock_newsletters\<close>.\<close>

definition mock_slug_to_vendor_id :: "string \<Rightarrow> jv" where
  "mock_slug_to_vendor_id slug =
     (if slug = ''foo-news'' then JStr foo_news_id
      else if slug = ''bar-news'' then JStr bar_news_id
      else JNone)"

definition mock_vendor_id_to_slug :: "jv \<Rightarrow> jv" where
  "mock_vendor_id_to_slug vendor_id =
     (if vendor_id = JStr foo_news_id then JStr ''foo-news''
      else if vendor_id = JStr bar_news_id then JStr ''bar-news''
      else JNone)"

text \<open>
  Modelled from the spec: \<^verbatim>\<open>process_country\<close> (module \<^verbatim>\<open>basket.news.backends.ctms\<close>)
  is not among the sources. The spec has the country "ISO lower-cased" and its example
  sends \<^verbatim>\<open>"CA"\<close> as \<^verbatim>\<open>"ca"\<close>; the tests expect \<^verbatim>\<open>"us"\<close> for \<^verbatim>\<open>"US"\<close> and
  \<^verbatim>\<open>None\<close> for a missing country.
\<close>

definition lower_char :: "char \<Rightarrow> char" where
  "lower_char ch =
     (case map_of (zip ''ABCDEFGHIJKLMNOPQRSTUVWXYZ'' ''abcdefghijklmnopqrstuvwxyz'') ch of
        None \<Rightarrow> ch
      | Some l \<Rightarrow> l)"

definition spec_process_country :: "jv \<Rightarrow> jv" where
  "spec_process_country raw_country =
     (case raw_country of
        JStr s \<Rightarrow> if s = [] then JNone else JStr (map lower_char s)
      | _ \<Rightarrow> JNone)"

text \<open>
  Modelled from the spec: \<^verbatim>\<open>process_lang\<close> (module \<^verbatim>\<open>basket.news.backends.ctms\<close>)
  is not among the sources. The tests run with \<^verbatim>\<open>"en"\<close> as the only newsletter
  language and expect \<^verbatim>\<open>"en"\<close> both for \<^verbatim>\<open>"en"\<close> and for a missing language.
\<close>

definition spec_process_lang :: "jv \<Rightarrow> jv" where
  "spec_process_lang raw_lang = JStr ''en''"

text \<open>
  Modelled from the spec: \<^verbatim>\<open>is_valid_uuid\<close> (module \<^verbatim>\<open>basket.base.utils\<close>) is not
  among the sources. The spec calls it "a UUID-validity check used to discard malformed
  vendor ids"; here a string of 36 characters with the four dashes in place passes.
\<close>

definition spec_is_valid_uuid :: "jv \<Rightarrow> bool" where
  "spec_is_valid_uuid v =
     (case v of
        JStr s \<Rightarrow> length s = 36 \<and> s ! 8 = CHR ''-'' \<and> s ! 13 = CHR ''-'' \<and> s ! 18 = CHR ''-''
                  \<and> s ! 23 = CHR ''-''
      | _ \<Rightarrow> False)"

text \<open>
  The standard library's URL functions at the URLs the tests use: \<^verbatim>\<open>"http://test.com"\<close>
  has scheme and host, \<^verbatim>\<open>""\<close> and \<^verbatim>\<open>"test.com"\<close> have neither.
\<close>

definition mock_urlparse :: "string \<Rightarrow> urlbits" where
  "mock_urlparse url =
     (if url = ''http://test.com'' then \<lparr>scheme = ''http'', netloc = ''test.com''\<rparr>
      else \<lparr>scheme = [], netloc = []\<rparr>)"

definition json_response :: "int \<Rightarrow> jv \<Rightarrow> http_response" where
  "json_response status j = \<lparr>status_code = status, body_text = ''{}'', body_json = Some j\<rparr>"

text \<open>
  The vendor as \<^verbatim>\<open>test_braze_get\<close> registers it, with the delete endpoint of
  \<^verbatim>\<open>test_braze_delete\<close>: the export finds the user given by \<open>users\<close>.
\<close>

definition mock_http :: "jv list \<Rightarrow> http_request list \<Rightarrow> http_request \<Rightarrow> http_response option" where
  "mock_http users log req =
     (if req_url req = ''http://test.com/users/export/ids'' then
        Some (json_response 200 (JDict [(''users'', JList users)]))
      else if req_url req = ''http://test.com/subscription/user/status'' then
        Some (json_response 200
          (JDict [(''users'', JList [JDict [(''subscription_groups'', JList mock_braze_user_subscription_groups)]])]))
      else if req_url req = ''http://test.com/users/delete'' then
        Some (json_response 200 (JDict []))
      else None)"

text \<open>A vendor that answers every request with the given status code.\<close>

definition status_http :: "int \<Rightarrow> http_request list \<Rightarrow> http_request \<Rightarrow> http_response option" where
  "status_http status log req = Some (json_response status (JDict []))"

text \<open>A vendor that answers every request with the given status code and no body.\<close>

definition empty_http :: "int \<Rightarrow> http_request list \<Rightarrow> http_request \<Rightarrow> http_response option" where
  "empty_http status log req = Some \<lparr>status_code = status, body_text = [], body_json = None\<rparr>"

definition test_env :: "(http_request list \<Rightarrow> http_request \<Rightarrow> http_response option) \<Rightarrow> env" where
  "test_env server =
     \<lparr>process_country = spec_process_country,
      process_lang = spec_process_lang,
      slug_to_vendor_id = mock_slug_to_vendor_id,
      vendor_id_to_slug = mock_vendor_id_to_slug,
      is_valid_uuid = spec_is_valid_uuid,
      now = ''2022-03-01T00:00:00+00:00'',
      urlparse = mock_urlparse,
      urlunparse = (\<lambda>s n. s @ ''://'' @ n),
      urljoin = (\<lambda>base path. base @ path),
      http = server\<rparr>"

text \<open>The client of the \<^verbatim>\<open>braze_client\<close> fixture.\<close>

definition braze_client :: BrazeInterface where
  "braze_client = \<lparr>api_url = ''http://test.com'', api_key = Some ''test_api_key'', active = True\<rparr>"

section \<open>Dictionaries and requests\<close>

lemma map_of_dict_set: "map_of (dict_set d k v) = (map_of d)(k \<mapsto> v)"
  by (simp add: dict_set_def update_conv')

lemma dict_get_dict_set: "dict_get (dict_set d k v) k' = (if k' = k then v else dict_get d k')"
  by (simp add: dict_get_def dict_get_default_def map_of_dict_set)

lemma dict_merge_Nil: "dict_merge a [] = a"
  by (simp add: dict_merge_def)

lemma dict_merge_Cons: "dict_merge a (kv # b) = dict_merge (dict_set a (fst kv) (snd kv)) b"
  by (simp add: dict_merge_def)

lemma map_of_dict_merge_other:
  "k \<notin> fst ` set b \<Longrightarrow> map_of (dict_merge a b) k = map_of a k"
proof (induction b arbitrary: a)
  case Nil
  then show ?case by (simp add: dict_merge_Nil)
next
  case (Cons kv b)
  then show ?case by (simp add: dict_merge_Cons map_of_dict_set)
qed

lemma request_inactive: "\<not> active c \<Longrightarrow> request e c endpoint data meth params log = (Inr JNone, log)"
  by (simp add: request_def)

lemma request_active_log:
  "active c \<Longrightarrow> snd (request e c endpoint data meth params log) = log @ [build_request e c endpoint data meth params]"
  by (simp add: request_def Let_def split: option.splits)

section \<open>Construction of the client\<close>

text \<open>
  C8. Constructing the transport client with a base URL that has both a scheme and a
  host succeeds, whatever the API key; with a base URL whose scheme or host is missing
  it fails with \<^verbatim>\<open>ValueError("Invalid base_url")\<close>, the invalid-configuration error.
\<close>

theorem init_succeeds_iff_scheme_and_host:
  "(scheme (urlparse e base_url) \<noteq> [] \<and> netloc (urlparse e base_url) \<noteq> []
      \<longrightarrow> (\<exists>c w. BrazeInterface_init e base_url key = Inr (c, w)))
   \<and> (scheme (urlparse e base_url) = [] \<or> netloc (urlparse e base_url) = []
      \<longrightarrow> BrazeInterface_init e base_url key = Inl (ValueError ''Invalid base_url''))"
  by (simp add: BrazeInterface_init_def Let_def)

theorem init_succeeds_iff_scheme_and_host_witness:
  "(\<exists>c w. BrazeInterface_init (test_env (mock_http [])) ''http://test.com'' (Some ''test_api_key'') = Inr (c, w))
   \<and> BrazeInterface_init (test_env (mock_http [])) ''test.com'' (Some ''test_api_key'') = Inl (ValueError ''Invalid base_url'')
   \<and> BrazeInterface_init (test_env (mock_http [])) '''' (Some ''test_api_key'') = Inl (ValueError ''Invalid base_url'')"
  using init_succeeds_iff_scheme_and_host [of "test_env (mock_http [])" "''http://test.com''" "Some ''test_api_key''"]
    init_succeeds_iff_scheme_and_host [of "test_env (mock_http [])" "''test.com''" "Some ''test_api_key''"]
    init_succeeds_iff_scheme_and_host [of "test_env (mock_http [])" "''''" "Some ''test_api_key''"]
  by (simp add: test_env_def mock_urlparse_def)

section \<open>The inactive client\<close>

text \<open>
  C4. With a valid base URL and an empty (or missing) API key the constructor returns a
  client whose \<open>active\<close> flag is false, and on that client each of the six operations
  returns \<^verbatim>\<open>None\<close> without raising and leaves the list of issued HTTP requests as it
  was, for all arguments.
\<close>

theorem inactive_client_is_noop:
  assumes url: "scheme (urlparse e base_url) \<noteq> []" "netloc (urlparse e base_url) \<noteq> []"
    and key: "key = None \<or> key = Some []"
  shows "\<exists>c w. BrazeInterface_init e base_url key = Inr (c, w) \<and> \<not> active c
     \<and> (\<forall>email event user_data log. track_user e c email event user_data log = (Inr JNone, log))
     \<and> (\<forall>email fields external_id log. export_users e c email fields external_id log = (Inr JNone, log))
     \<and> (\<forall>email log. delete_user e c email log = (Inr JNone, log))
     \<and> (\<forall>email campaign_id log. send_campaign e c email campaign_id log = (Inr JNone, log))
     \<and> (\<forall>external_id email log. get_user_subscriptions e c external_id email log = (Inr JNone, log))
     \<and> (\<forall>braze_user_data log. save_user e c braze_user_data log = (Inr JNone, log))"
proof -
  let ?c = "\<lparr>api_url = urlunparse e (scheme (urlparse e base_url)) (netloc (urlparse e base_url)),
             api_key = key, active = False\<rparr>"
  have init: "BrazeInterface_init e base_url key = Inr (?c, [''Braze API key is not configured''])"
    using url key by (auto simp: BrazeInterface_init_def Let_def)
  have off: "\<not> active ?c" by simp
  show ?thesis
    unfolding track_user_def export_users_def delete_user_def send_campaign_def
      get_user_subscriptions_def save_user_def
    using init request_inactive [OF off] by simp
qed

theorem inactive_client_is_noop_witness:
  "\<exists>c w. BrazeInterface_init (test_env (status_http 500)) ''http://test.com'' (Some []) = Inr (c, w) \<and> \<not> active c
     \<and> (\<forall>email event user_data log. track_user (test_env (status_http 500)) c email event user_data log = (Inr JNone, log))
     \<and> (\<forall>email fields external_id log. export_users (test_env (status_http 500)) c email fields external_id log = (Inr JNone, log))
     \<and> (\<forall>email log. delete_user (test_env (status_http 500)) c email log = (Inr JNone, log))
     \<and> (\<forall>email campaign_id log. send_campaign (test_env (status_http 500)) c email campaign_id log = (Inr JNone, log))
     \<and> (\<forall>external_id email log. get_user_subscriptions (test_env (status_http 500)) c external_id email log = (Inr JNone, log))
     \<and> (\<forall>braze_user_data log. save_user (test_env (status_http 500)) c braze_user_data log = (Inr JNone, log))"
proof -
  have "scheme (urlparse (test_env (status_http 500)) ''http://test.com'') \<noteq> []"
       "netloc (urlparse (test_env (status_http 500)) ''http://test.com'') \<noteq> []"
    by (simp_all add: test_env_def mock_urlparse_def)
  then show ?thesis
    by (rule inactive_client_is_noop) simp
qed

section \<open>Classification of HTTP errors\<close>

text \<open>
  C5, as stated, does not hold for every non-2xx response: \<^verbatim>\<open>raise_for_status\<close>
  raises only for the status codes 400 to 599. A response with status 300 and a JSON
  body is returned to the caller as a result, and a response with status 304, which
  has no body, ends in the decoding error of \<^verbatim>\<open>response.json()\<close>; neither raises
  the generic client error of the taxonomy.
\<close>

theorem request_3xx_counterexample:
  "http (test_env (status_http 300)) []
        (build_request (test_env (status_http 300)) braze_client USERS_TRACK (JDict []) ''POST'' JNone)
      = Some \<lparr>status_code = 300, body_text = ''{}'', body_json = Some (JDict [])\<rparr>
   \<and> request (test_env (status_http 300)) braze_client USERS_TRACK (JDict []) ''POST'' JNone []
      = (Inr (JDict []),
         [build_request (test_env (status_http 300)) braze_client USERS_TRACK (JDict []) ''POST'' JNone])
   \<and> http (test_env (empty_http 304)) []
        (build_request (test_env (empty_http 304)) braze_client USERS_TRACK (JDict []) ''POST'' JNone)
      = Some \<lparr>status_code = 304, body_text = [], body_json = None\<rparr>
   \<and> request (test_env (empty_http 304)) braze_client USERS_TRACK (JDict []) ''POST'' JNone []
      = (Inl JSONDecodeError,
         [build_request (test_env (empty_http 304)) braze_client USERS_TRACK (JDict []) ''POST'' JNone])"
  by (simp add: request_def test_env_def status_http_def empty_http_def json_response_def
      braze_client_def Let_def)

text \<open>
  C5, amended. On an active client, for every response with a status code from 400 to
  599 the request layer raises the error classified by the status code: 400 bad
  request, 401 unauthorized, 403 forbidden, 404 not found, 429 rate limited, 500 to 599
  the vendor's internal error, and any other code in 400 to 499 (418, say) the generic
  client error. The error carries the raw response body, and the request was issued
  once. For a response with any other status code no classified error is raised: the
  result is the JSON body when the response has one, and the decoding error of
  \<^verbatim>\<open>response.json()\<close> when it has none.
\<close>

theorem request_classifies_http_errors:
  assumes "active c"
    and "http e log (build_request e c endpoint data meth params) = Some r"
  shows "(400 \<le> status_code r \<and> status_code r \<le> 599 \<longrightarrow>
       (\<exists>err. request e c endpoint data meth params log
             = (Inl err, log @ [build_request e c endpoint data meth params])
         \<and> (status_code r = 400 \<longrightarrow> err = BrazeBadRequestError (body_text r))
         \<and> (status_code r = 401 \<longrightarrow> err = BrazeUnauthorizedError (body_text r))
         \<and> (status_code r = 403 \<longrightarrow> err = BrazeForbiddenError (body_text r))
         \<and> (status_code r = 404 \<longrightarrow> err = BrazeNotFoundError (body_text r))
         \<and> (status_code r = 429 \<longrightarrow> err = BrazeRateLimitError (body_text r))
         \<and> (500 \<le> status_code r \<longrightarrow> err = BrazeInternalServerError (body_text r))
         \<and> (status_code r \<notin> {400, 401, 403, 404, 429} \<and> status_code r < 500
              \<longrightarrow> err = BrazeClientError (body_text r))))
     \<and> (status_code r < 400 \<or> 599 < status_code r \<longrightarrow>
          request e c endpoint data meth params log
            = (case body_json r of None \<Rightarrow> Inl JSONDecodeError | Some j \<Rightarrow> Inr j,
               log @ [build_request e c endpoint data meth params]))"
proof (intro conjI impI)
  assume "400 \<le> status_code r \<and> status_code r \<le> 599"
  with assms show "\<exists>err. request e c endpoint data meth params log
             = (Inl err, log @ [build_request e c endpoint data meth params])
         \<and> (status_code r = 400 \<longrightarrow> err = BrazeBadRequestError (body_text r))
         \<and> (status_code r = 401 \<longrightarrow> err = BrazeUnauthorizedError (body_text r))
         \<and> (status_code r = 403 \<longrightarrow> err = BrazeForbiddenError (body_text r))
         \<and> (status_code r = 404 \<longrightarrow> err = BrazeNotFoundError (body_text r))
         \<and> (status_code r = 429 \<longrightarrow> err = BrazeRateLimitError (body_text r))
         \<and> (500 \<le> status_code r \<longrightarrow> err = BrazeInternalServerError (body_text r))
         \<and> (status_code r \<notin> {400, 401, 403, 404, 429} \<and> status_code r < 500
              \<longrightarrow> err = BrazeClientError (body_text r))"
    by (simp add: request_def Let_def)
next
  assume "status_code r < 400 \<or> 599 < status_code r"
  with assms show "request e c endpoint data meth params log
      = (case body_json r of None \<Rightarrow> Inl JSONDecodeError | Some j \<Rightarrow> Inr j,
         log @ [build_request e c endpoint data meth params])"
    by (auto simp: request_def Let_def split: option.splits)
qed

theorem request_classifies_http_errors_witness:
  "request (test_env (status_http 404)) braze_client USERS_TRACK (JDict []) ''POST'' JNone []
     = (Inl (BrazeNotFoundError ''{}''),
        [build_request (test_env (status_http 404)) braze_client USERS_TRACK (JDict []) ''POST'' JNone])
   \<and> request (test_env (status_http 418)) braze_client USERS_DELETE (JDict []) ''POST'' JNone []
     = (Inl (BrazeClientError ''{}''),
        [build_request (test_env (status_http 418)) braze_client USERS_DELETE (JDict []) ''POST'' JNone])
   \<and> request (test_env (status_http 300)) braze_client USERS_TRACK (JDict []) ''POST'' JNone []
     = (Inr (JDict []),
        [build_request (test_env (status_http 300)) braze_client USERS_TRACK (JDict []) ''POST'' JNone])
   \<and> request (test_env (empty_http 304)) braze_client USERS_TRACK (JDict []) ''POST'' JNone []
     = (Inl JSONDecodeError,
        [build_request (test_env (empty_http 304)) braze_client USERS_TRACK (JDict []) ''POST'' JNone])"
proof -
  have a: "active braze_client" by (simp add: braze_client_def)
  have h404: "http (test_env (status_http 404)) []
        (build_request (test_env (status_http 404)) braze_client USERS_TRACK (JDict []) ''POST'' JNone)
      = Some (json_response 404 (JDict []))"
    by (simp add: test_env_def status_http_def)
  have h418: "http (test_env (status_http 418)) []
        (build_request (test_env (status_http 418)) braze_client USERS_DELETE (JDict []) ''POST'' JNone)
      = Some (json_response 418 (JDict []))"
    by (simp add: test_env_def status_http_def)
  have h300: "http (test_env (status_http 300)) []
        (build_request (test_env (status_http 300)) braze_client USERS_TRACK (JDict []) ''POST'' JNone)
      = Some (json_response 300 (JDict []))"
    by (simp add: test_env_def status_http_def)
  have h304: "http (test_env (empty_http 304)) []
        (build_request (test_env (empty_http 304)) braze_client USERS_TRACK (JDict []) ''POST'' JNone)
      = Some \<lparr>status_code = 304, body_text = [], body_json = None\<rparr>"
    by (simp add: test_env_def empty_http_def)
  show ?thesis
    using request_classifies_http_errors [OF a h404] request_classifies_http_errors [OF a h418]
      request_classifies_http_errors [OF a h300] request_classifies_http_errors [OF a h304]
    by (simp add: json_response_def)
qed

section \<open>The error monad, merging, and the pieces of \<^verbatim>\<open>to_vendor\<close>\<close>

lemma ebind_eq_Inr: "(ebind m f = Inr y) = (\<exists>x. m = Inr x \<and> f x = Inr y)"
  by (cases m) (simp_all add: ebind_def)

lemma map_of_dict_merge: "map_of (dict_merge a b) = map_of a ++ map_of (rev b)"
proof (induction b arbitrary: a)
  case Nil
  then show ?case by (simp add: dict_merge_Nil)
next
  case (Cons kv b)
  then show ?case
    by (cases kv) (auto simp: dict_merge_Cons map_of_dict_set map_add_def fun_eq_iff split: option.splits)
qed

lemma dict_get_dict_merge:
  "dict_get (dict_merge a b) k = (case map_of (rev b) k of None \<Rightarrow> dict_get a k | Some v \<Rightarrow> v)"
  by (simp add: dict_get_def dict_get_default_def map_of_dict_merge map_add_def split: option.splits)

lemma to_vendor_Some:
  "to_vendor e basket_user_data (Some u) custom_attributes events =
     Inr (if truthy events
          then dict_set [(''attributes'', JList [JDict (dict_merge (billable_attributes e (or_empty basket_user_data) u) (or_empty custom_attributes))])] ''events'' events
          else [(''attributes'', JList [JDict (dict_merge (billable_attributes e (or_empty basket_user_data) u) (or_empty custom_attributes))])])"
  unfolding to_vendor_def billable_attributes_def set_if_changed_def user_attributes_of_def newsletters_groups_def Let_def
    or_empty_def [of "Some u"] option.case
  by (rule refl)


lemma map_of_set_if_changed:
  "map_of (set_if_changed k v stored d) k' = (if k' = k \<and> v \<noteq> stored then Some v else map_of d k')"
  by (simp add: set_if_changed_def map_of_dict_set)

lemma attribute_of_to_vendor:
  "attribute_of (to_vendor e basket_user_data (Some u) custom_attributes events) k =
     map_of (dict_merge (billable_attributes e (or_empty basket_user_data) u) (or_empty custom_attributes)) k"
  by (simp add: to_vendor_Some attribute_of_def payload_attributes_def dict_get_dict_set
      dict_get_def [of "[x]" for x] dict_get_default_def)

lemma attribute_of_to_vendor_no_custom:
  "attribute_of (to_vendor e basket_user_data (Some u) None events) k =
     map_of (billable_attributes e (or_empty basket_user_data) u) k"
  by (simp add: attribute_of_to_vendor or_empty_def dict_merge_Nil)

lemma billable_country:
  "map_of (billable_attributes e existing u) ''country'' =
     (if process_country e (dict_get (dict_merge existing u) ''country'') \<noteq> dict_get existing ''country''
      then Some (process_country e (dict_get (dict_merge existing u) ''country'')) else None)"
  by (simp add: billable_attributes_def map_of_set_if_changed user_attributes_of_def)

lemma billable_language:
  "map_of (billable_attributes e existing u) ''language'' =
     (if process_lang e (dict_get (dict_merge existing u) ''lang'') \<noteq> dict_get existing ''language''
      then Some (process_lang e (dict_get (dict_merge existing u) ''lang'')) else None)"
  by (simp add: billable_attributes_def map_of_set_if_changed user_attributes_of_def)

lemma billable_email_subscribe:
  "map_of (billable_attributes e existing u) ''email_subscribe'' =
     Some (JStr (if truthy (dict_get (dict_merge existing u) ''optin'') then ''opted_in''
                 else if truthy (dict_get (dict_merge existing u) ''optout'') then ''unsubscribed''
                 else ''subscribed''))"
  by (simp add: billable_attributes_def map_of_set_if_changed user_attributes_of_def)

lemma billable_subscription_groups:
  "map_of (billable_attributes e existing u) ''subscription_groups'' = Some (JList (newsletters_groups e u))"
  by (simp add: billable_attributes_def map_of_set_if_changed user_attributes_of_def)

lemma billable_update_existing_only:
  "map_of (billable_attributes e existing u) ''_update_existing_only'' = Some (JBool True)"
  by (simp add: billable_attributes_def map_of_set_if_changed user_attributes_of_def)

section \<open>The fixtures run through the model\<close>

lemma from_vendor_mock:
  "from_vendor (test_env s) (JDict mock_braze_user_data) (JList mock_braze_user_subscription_groups) = Inr mock_basket_user_data"
  by (simp add: from_vendor_def from_vendor_dict_def ebind_def Let_def mock_braze_user_data_def
    mock_braze_user_subscription_groups_def mock_basket_user_data_def py_get_def subscript_def index0_def
    py_iter_def dict_get_def dict_get_default_def or_get_def test_env_def mock_vendor_id_to_slug_def
    foo_news_id_def bar_news_id_def)

lemma get_mock_absent:
  "get (test_env (mock_http [])) braze_client JNone JNone (JStr ''missing@x.com'') JNone []
    = (Inr None, [export_request (test_env (mock_http [])) braze_client (JStr ''missing@x.com'')])"
  by (simp add: get_def export_users_def request_def braze_client_def Let_def test_env_def export_request_def
    build_request_def mock_http_def json_response_def subscript_def)

lemma get_mock_found:
  "fst (get (test_env (mock_http [JDict mock_braze_user_data])) braze_client JNone JNone (JStr ''test@example.com'') JNone [])
    = Inr (Some mock_basket_user_data)"
  by (simp add: get_def export_users_def request_def braze_client_def Let_def test_env_def export_request_def
    build_request_def mock_http_def json_response_def subscript_def  index0_def ebind_def get_user_subscriptions_def
     from_vendor_def from_vendor_dict_def  mock_braze_user_data_def
    mock_braze_user_subscription_groups_def mock_basket_user_data_def py_get_def 
    py_iter_def dict_get_def dict_get_default_def or_get_def mock_vendor_id_to_slug_def
    foo_news_id_def bar_news_id_def)

section \<open>\<^verbatim>\<open>to_vendor\<close> without an update record\<close>

text \<open>
  C2. The claim has \<^verbatim>\<open>to_vendor\<close> succeed when it is called with an existing
  record and no update record. The code raises instead:
  \<^verbatim>\<open>update_data.get("newsletters")\<close> is evaluated on \<^verbatim>\<open>None\<close>, for every
  existing record, custom attributes and events.
\<close>

theorem to_vendor_without_update_raises:
  "to_vendor e basket_user_data None custom_attributes events = Inl AttributeError"
  by (simp add: to_vendor_def Let_def)

section \<open>Billable fields\<close>

text \<open>
  C1. The claim has \<^verbatim>\<open>to_vendor\<close> omit \<^verbatim>\<open>country\<close> when the existing record
  and the update both hold \<^verbatim>\<open>"US"\<close>. The code compares the normalised value with
  the stored one as it is: with a normaliser that lower-cases \<^verbatim>\<open>"US"\<close> to
  \<^verbatim>\<open>"us"\<close> the two differ and \<^verbatim>\<open>country: "us"\<close> is sent. The language is
  compared with the key \<^verbatim>\<open>"language"\<close> of the existing record, which stores it
  under \<^verbatim>\<open>"lang"\<close>, so an unchanged \<^verbatim>\<open>language: "en"\<close> is sent as well.
\<close>

theorem to_vendor_resends_unchanged_billable_fields:
  assumes "process_country e (JStr ''US'') = JStr ''us''"
    and "process_lang e (JStr ''en'') = JStr ''en''"
    and "dict_get existing ''country'' = JStr ''US''"
    and "dict_get existing ''lang'' = JStr ''en''"
    and "map_of existing ''language'' = None"
  shows "attribute_of (to_vendor e (Some existing) (Some [(''country'', JStr ''US'')]) None events) ''country''
           = Some (JStr ''us'')
     \<and> attribute_of (to_vendor e (Some existing) (Some [(''country'', JStr ''US'')]) None events) ''language''
           = Some (JStr ''en'')"
  using assms
  by (simp add: attribute_of_to_vendor_no_custom billable_country billable_language dict_get_dict_merge
      or_empty_def dict_get_def [of existing "''language''"] dict_get_default_def)

theorem to_vendor_resends_unchanged_billable_fields_witness:
  "attribute_of (to_vendor (test_env (mock_http [])) (Some mock_basket_user_data)
       (Some [(''country'', JStr ''US'')]) None JNone) ''country'' = Some (JStr ''us'')
   \<and> attribute_of (to_vendor (test_env (mock_http [])) (Some mock_basket_user_data)
       (Some [(''country'', JStr ''US'')]) None JNone) ''language'' = Some (JStr ''en'')"
proof -
  have pc: "process_country (test_env (mock_http [])) (JStr ''US'') = JStr ''us''"
    by (simp add: test_env_def spec_process_country_def lower_char_def)
  have pl: "process_lang (test_env (mock_http [])) (JStr ''en'') = JStr ''en''"
    by (simp add: test_env_def spec_process_lang_def)
  have ex: "dict_get mock_basket_user_data ''country'' = JStr ''US''"
    "dict_get mock_basket_user_data ''lang'' = JStr ''en''"
    "map_of mock_basket_user_data ''language'' = None"
    by (simp_all add: mock_basket_user_data_def dict_get_def dict_get_default_def)
  from pc pl ex show ?thesis by (rule to_vendor_resends_unchanged_billable_fields)
qed

section \<open>\<^verbatim>\<open>track_user\<close> with an \<^verbatim>\<open>email_id\<close>\<close>

text \<open>
  C3. The claim has a \<^verbatim>\<open>basket_token\<close> attribute attached only when the user data
  carries one. With \<^verbatim>\<open>user_data = {"email_id": "X"}\<close> the code sends
  \<^verbatim>\<open>"basket_token": {}\<close> (the second pop finds the dictionary emptied by the first,
  and \<^verbatim>\<open>user_data and ...\<close> is then the empty dictionary itself); with a further
  key in the user data it sends \<^verbatim>\<open>"basket_token": null\<close>.
\<close>

theorem track_user_email_id_only:
  "track_user_data e email JNone (Some [(''email_id'', JStr ''X'')])
     = [(''attributes'', JList [JDict [(''email'', email), (''external_id'', JStr ''X''), (''basket_token'', JDict [])]])]
   \<and> track_user_data e email JNone (Some [(''email_id'', JStr ''X''), (''source'', JStr ''web'')])
     = [(''attributes'', JList [JDict [(''email'', email), (''external_id'', JStr ''X''), (''basket_token'', JNone)]])]"
  by (simp add: track_user_data_def and_pop_def dict_get_def dict_get_default_def Let_def)

section \<open>\<^verbatim>\<open>add\<close> for a record without \<^verbatim>\<open>email_id\<close>\<close>

text \<open>
  C10. The claim has \<^verbatim>\<open>add\<close> pass an email alias when the record lacks an
  \<^verbatim>\<open>email_id\<close>. The code reads the address as \<^verbatim>\<open>data.email\<close>, an attribute
  a dictionary does not have: \<^verbatim>\<open>add\<close> raises \<^verbatim>\<open>AttributeError\<close> for every such
  record and issues no request.
\<close>

theorem add_without_email_id_raises:
  assumes "\<not> truthy (dict_get data ''email_id'')"
  shows "add e c data log = (Inl AttributeError, log)"
  using assms by (simp add: add_def getattr_dict_def ebind_def)

theorem add_without_email_id_raises_witness:
  "add (test_env (mock_http [])) braze_client [(''email'', JStr ''a@b.com'')] [] = (Inl AttributeError, [])"
  by (rule add_without_email_id_raises) (simp add: dict_get_def dict_get_default_def)

section \<open>Newsletters of a vendor record\<close>

lemma subscript_group_field: "subscript x k = Inr v \<Longrightarrow> group_field k x = v"
  by (auto simp: subscript_def group_field_def dict_get_def dict_get_default_def
      split: jv.splits option.splits)

lemma subscription_ids_of_spec:
  "subscription_ids_of groups = Inr ids \<Longrightarrow>
     ids = map (group_field ''id'') (filter (\<lambda>g. group_field ''status'' g = JStr ''Subscribed'') groups)"
proof (induction groups arbitrary: ids)
  case Nil
  then show ?case by simp
next
  case (Cons g groups)
  from Cons.prems obtain status where st: "subscript g ''status'' = Inr status"
    by (auto split: sum.splits)
  have gf: "group_field ''status'' g = status"
    using st by (rule subscript_group_field)
  show ?case
  proof (cases "status = JStr ''Subscribed''")
    case True
    with Cons.prems st obtain i rest where i: "subscript g ''id'' = Inr i"
      and rest: "subscription_ids_of groups = Inr rest" and ids: "ids = i # rest"
      by (auto split: sum.splits)
    have "group_field ''id'' g = i" using i by (rule subscript_group_field)
    with Cons.IH [OF rest] ids gf True show ?thesis by simp
  next
    case False
    with Cons.prems st have "subscription_ids_of groups = Inr ids" by simp
    from Cons.IH [OF this] gf False show ?thesis by simp
  qed
qed

lemma from_vendor_dict_newsletters:
  assumes "from_vendor_dict e b g = Inr L"
  shows "\<exists>groups ids. py_iter g = Inr groups \<and> subscription_ids_of groups = Inr ids
           \<and> dict_get L ''newsletters'' = JList (filter truthy (map (vendor_id_to_slug e) ids))"
  using assms
  by (auto simp: from_vendor_dict_def ebind_eq_Inr Let_def dict_get_def dict_get_default_def)

lemma from_vendor_nonempty:
  assumes "from_vendor e r g = Inr L"
  shows "L \<noteq> []"
  using assms
  by (auto simp: from_vendor_def from_vendor_dict_def ebind_eq_Inr Let_def split: jv.splits)

text \<open>
  C9. Whenever \<^verbatim>\<open>from_vendor\<close> returns a local record for a list of subscription
  groups, and the lookup answers each id with \<^verbatim>\<open>None\<close> or with a non-empty slug, the
  \<^verbatim>\<open>newsletters\<close> field is the list the specification describes: the groups with
  status \<^verbatim>\<open>"Subscribed"\<close>, each id mapped through the lookup, the unmapped ids
  dropped, in the order of the vendor's response.
\<close>

theorem from_vendor_newsletters:
  assumes ok: "from_vendor e braze_user_data (JList groups) = Inr L"
    and slugs: "\<forall>i. vendor_id_to_slug e i = JNone \<or> truthy (vendor_id_to_slug e i)"
  shows "dict_get L ''newsletters'' = JList (spec_newsletters (vendor_id_to_slug e) groups)"
proof -
  from ok obtain b where "from_vendor_dict e b (JList groups) = Inr L"
    by (auto simp: from_vendor_def split: jv.splits)
  from from_vendor_dict_newsletters [OF this] obtain ids
    where ids: "subscription_ids_of groups = Inr ids"
      and news: "dict_get L ''newsletters'' = JList (filter truthy (map (vendor_id_to_slug e) ids))"
    by (auto simp: py_iter_def)
  have "filter truthy (map (vendor_id_to_slug e) ids)
      = filter (\<lambda>slug. slug \<noteq> JNone) (map (vendor_id_to_slug e) ids)"
  proof (rule filter_cong [OF refl])
    fix slug assume "slug \<in> set (map (vendor_id_to_slug e) ids)"
    then obtain i where "slug = vendor_id_to_slug e i" by auto
    with slugs show "truthy slug = (slug \<noteq> JNone)" by (metis truthy.simps(1))
  qed
  with news subscription_ids_of_spec [OF ids] show ?thesis
    by (simp add: spec_newsletters_def)
qed

theorem from_vendor_newsletters_witness:
  "from_vendor (test_env (mock_http [])) (JDict mock_braze_user_data) (JList mixed_subscription_groups)
      = Inr (dict_set mock_basket_user_data ''newsletters'' (JList [JStr ''bar-news'', JStr ''foo-news'']))
   \<and> spec_newsletters mock_vendor_id_to_slug mixed_subscription_groups = [JStr ''bar-news'', JStr ''foo-news'']
   \<and> dict_get (dict_set mock_basket_user_data ''newsletters'' (JList [JStr ''bar-news'', JStr ''foo-news''])) ''newsletters''
      = JList (spec_newsletters mock_vendor_id_to_slug mixed_subscription_groups)"
proof -
  have fv: "from_vendor (test_env (mock_http [])) (JDict mock_braze_user_data) (JList mixed_subscription_groups)
      = Inr (dict_set mock_basket_user_data ''newsletters'' (JList [JStr ''bar-news'', JStr ''foo-news'']))"
    by (simp add: from_vendor_def from_vendor_dict_def ebind_def Let_def mock_braze_user_data_def
      mixed_subscription_groups_def mock_basket_user_data_def py_get_def subscript_def index0_def
      py_iter_def dict_get_def dict_get_default_def or_get_def test_env_def mock_vendor_id_to_slug_def
      foo_news_id_def bar_news_id_def dict_set_def)
  have slugs: "\<forall>i. vendor_id_to_slug (test_env (mock_http [])) i = JNone
      \<or> truthy (vendor_id_to_slug (test_env (mock_http [])) i)"
    by (simp add: test_env_def mock_vendor_id_to_slug_def)
  have sp: "spec_newsletters mock_vendor_id_to_slug mixed_subscription_groups = [JStr ''bar-news'', JStr ''foo-news'']"
    by (simp add: spec_newsletters_def mixed_subscription_groups_def group_field_def
        dict_get_def dict_get_default_def mock_vendor_id_to_slug_def foo_news_id_def bar_news_id_def)
  have v: "vendor_id_to_slug (test_env (mock_http [])) = mock_vendor_id_to_slug"
    by (simp add: test_env_def)
  from from_vendor_newsletters [OF fv slugs] fv sp v show ?thesis by simp
qed

section \<open>Deleting a user\<close>

lemma request_cases:
  obtains (inactive) "\<not> active c" "request e c endpoint data meth params log = (Inr JNone, log)"
  | (active) r where "active c"
      "request e c endpoint data meth params log = (r, log @ [build_request e c endpoint data meth params])"
proof (cases "active c")
  case True
  then have "snd (request e c endpoint data meth params log) = log @ [build_request e c endpoint data meth params]"
    by (rule request_active_log)
  then have "request e c endpoint data meth params log
      = (fst (request e c endpoint data meth params log), log @ [build_request e c endpoint data meth params])"
    by (metis prod.collapse)
  with True show ?thesis by (rule active)
next
  case False
  then show ?thesis using request_inactive [OF False] by (rule inactive)
qed

lemma get_absent:
  assumes "get e c JNone JNone email JNone log = (Inr None, log1)"
  shows "log1 = log @ [export_request e c email]"
proof (cases rule: request_cases [of c e USERS_EXPORT_IDS "JDict (export_users_data email fields_to_export JNone)" "''POST''" JNone log])
  case inactive
  with assms show ?thesis
    by (simp add: get_def export_users_def subscript_def)
next
  case (active r)
  with assms show ?thesis
    by (auto simp: get_def export_users_def export_request_def ebind_eq_Inr
        split: sum.splits if_splits prod.splits)
qed

lemma get_found:
  assumes "get e c JNone JNone email JNone log = (Inr (Some data), log1)"
  shows "active c \<and> data \<noteq> []"
proof (cases rule: request_cases [of c e USERS_EXPORT_IDS "JDict (export_users_data email fields_to_export JNone)" "''POST''" JNone log])
  case inactive
  with assms show ?thesis
    by (simp add: get_def export_users_def subscript_def)
next
  case (active r)
  with assms show ?thesis
    by (auto simp: get_def export_users_def ebind_eq_Inr
        split: sum.splits if_splits prod.splits dest: from_vendor_nonempty)
qed

text \<open>
  C6. \<^verbatim>\<open>delete(email)\<close> starts with \<^verbatim>\<open>get(email=email)\<close>. If that returns
  \<^verbatim>\<open>None\<close>, \<^verbatim>\<open>delete\<close> raises \<^verbatim>\<open>BrazeUserNotFoundByEmailError\<close> and the only
  request issued is the export lookup of \<^verbatim>\<open>get\<close>: no delete call. If it returns a
  record, exactly one more request is issued, the vendor delete, and when that succeeds
  the result is the fetched record in a single-element list (when it fails, its error
  is raised). An error of \<^verbatim>\<open>get\<close> is raised unchanged.
\<close>

theorem delete_after_get:
  "(get e c JNone JNone email JNone log = (Inr None, log1) \<longrightarrow>
      delete e c email log = (Inl BrazeUserNotFoundByEmailError, log @ [export_request e c email]))
   \<and> (get e c JNone JNone email JNone log = (Inr (Some data), log1) \<longrightarrow>
        snd (delete e c email log) = log1 @ [delete_request e c email]
        \<and> (\<forall>r. fst (delete_user e c email log1) = Inr r \<longrightarrow> fst (delete e c email log) = Inr [data])
        \<and> (\<forall>err. fst (delete_user e c email log1) = Inl err \<longrightarrow> fst (delete e c email log) = Inl err))
   \<and> (get e c JNone JNone email JNone log = (Inl err, log1) \<longrightarrow> delete e c email log = (Inl err, log1))"
proof (intro conjI impI)
  assume g: "get e c JNone JNone email JNone log = (Inr None, log1)"
  from get_absent [OF g] g
  show "delete e c email log = (Inl BrazeUserNotFoundByEmailError, log @ [export_request e c email])"
    by (simp add: delete_def or_empty_def)
next
  assume g: "get e c JNone JNone email JNone log = (Inr (Some data), log1)"
  from get_found [OF g] have a: "active c" and d: "data \<noteq> []" by simp_all
  have l: "snd (delete_user e c email log1) = log1 @ [delete_request e c email]"
    unfolding delete_user_def delete_request_def using a by (rule request_active_log)
  show "snd (delete e c email log) = log1 @ [delete_request e c email]"
    using g d l by (auto simp: delete_def or_empty_def split: prod.splits sum.splits)
  show "\<forall>r. fst (delete_user e c email log1) = Inr r \<longrightarrow> fst (delete e c email log) = Inr [data]"
    using g d by (auto simp: delete_def or_empty_def split: prod.splits sum.splits)
  show "\<forall>err. fst (delete_user e c email log1) = Inl err \<longrightarrow> fst (delete e c email log) = Inl err"
    using g d by (auto simp: delete_def or_empty_def split: prod.splits sum.splits)
next
  assume "get e c JNone JNone email JNone log = (Inl err, log1)"
  then show "delete e c email log = (Inl err, log1)"
    by (simp add: delete_def)
qed


theorem delete_after_get_witness:
  "delete (test_env (mock_http [])) braze_client (JStr ''missing@x.com'') []
      = (Inl BrazeUserNotFoundByEmailError,
         [export_request (test_env (mock_http [])) braze_client (JStr ''missing@x.com'')])
   \<and> delete (test_env (mock_http [JDict mock_braze_user_data])) braze_client (JStr ''test@example.com'') []
      = (Inr [mock_basket_user_data],
         snd (get (test_env (mock_http [JDict mock_braze_user_data])) braze_client JNone JNone (JStr ''test@example.com'') JNone [])
           @ [delete_request (test_env (mock_http [JDict mock_braze_user_data])) braze_client (JStr ''test@example.com'')])"
proof -
  let ?E = "test_env (mock_http [JDict mock_braze_user_data])"
  let ?m = "JStr ''test@example.com''"
  let ?log1 = "snd (get ?E braze_client JNone JNone ?m JNone [])"
  have g2: "get ?E braze_client JNone JNone ?m JNone [] = (Inr (Some mock_basket_user_data), ?log1)"
    using get_mock_found by (metis prod.collapse)
  have d2: "fst (delete_user ?E braze_client ?m ?log1) = Inr (JDict [])"
    by (simp add: delete_user_def request_def braze_client_def test_env_def build_request_def Let_def
        mock_http_def json_response_def)
  from delete_after_get [of "test_env (mock_http [])" braze_client "JStr ''missing@x.com''" "[]"
      "[export_request (test_env (mock_http [])) braze_client (JStr ''missing@x.com'')]"]
    get_mock_absent
  have a: "delete (test_env (mock_http [])) braze_client (JStr ''missing@x.com'') []
      = (Inl BrazeUserNotFoundByEmailError,
         [export_request (test_env (mock_http [])) braze_client (JStr ''missing@x.com'')])"
    by simp
  from delete_after_get [of ?E braze_client ?m "[]" ?log1 mock_basket_user_data] g2 d2
  have b: "delete ?E braze_client ?m [] = (Inr [mock_basket_user_data], ?log1 @ [delete_request ?E braze_client ?m])"
    by (metis prod.collapse)
  from a b show ?thesis by simp
qed

section \<open>Round trip through \<^verbatim>\<open>from_vendor\<close> and \<^verbatim>\<open>to_vendor\<close>\<close>

lemma from_vendor_merged:
  assumes "from_vendor e (JDict b) g = Inr L"
  shows "dict_get (dict_merge a L) ''optin'' = JBool (dict_get b ''email_subscribe'' = JStr ''opted_in'')"
    and "dict_get (dict_merge a L) ''optout'' = JBool (dict_get b ''email_subscribe'' = JStr ''unsubscribed'')"
    and "dict_get L ''optin'' = JBool (dict_get b ''email_subscribe'' = JStr ''opted_in'')"
    and "dict_get L ''optout'' = JBool (dict_get b ''email_subscribe'' = JStr ''unsubscribed'')"
    and "\<exists>slugs. dict_get L ''newsletters'' = JList slugs"
  using assms
  by (auto simp: from_vendor_def from_vendor_dict_def ebind_eq_Inr Let_def dict_get_dict_merge
      dict_get_def [of "x # xs" for x xs] dict_get_default_def)

text \<open>
  C7, as stated, does not hold: the subscription state does not survive the round
  trip. For the vendor record and the groups of the test suite, whose ids all resolve
  (\<^verbatim>\<open>foo-news\<close> is subscribed), the payload's \<^verbatim>\<open>subscription_groups\<close> is empty
  whether the local record is passed as the update or as the existing record with an
  empty update, since \<^verbatim>\<open>to_vendor\<close> translates only a slug-to-boolean dictionary and
  \<^verbatim>\<open>from_vendor\<close> yields a list of slugs. Passed as the existing record alone, the
  call raises.
\<close>

theorem round_trip_subscription_state_counterexample:
  "from_vendor (test_env (mock_http [])) (JDict mock_braze_user_data) (JList mock_braze_user_subscription_groups)
      = Inr mock_basket_user_data
   \<and> dict_get mock_basket_user_data ''newsletters'' = JList [JStr ''foo-news'']
   \<and> attribute_of (to_vendor (test_env (mock_http [])) None (Some mock_basket_user_data) None JNone) ''subscription_groups''
      = Some (JList [])
   \<and> attribute_of (to_vendor (test_env (mock_http [])) (Some mock_basket_user_data) (Some []) None JNone) ''subscription_groups''
      = Some (JList [])
   \<and> to_vendor (test_env (mock_http [])) (Some mock_basket_user_data) None None JNone = Inl AttributeError"
proof -
  have news: "dict_get mock_basket_user_data ''newsletters'' = JList [JStr ''foo-news'']"
    by (simp add: mock_basket_user_data_def dict_get_def dict_get_default_def)
  have g1: "newsletters_groups (test_env (mock_http [])) mock_basket_user_data = []"
    by (simp add: newsletters_groups_def news)
  have g2: "newsletters_groups (test_env (mock_http [])) [] = []"
    by (simp add: newsletters_groups_def dict_get_def dict_get_default_def)
  have raise: "to_vendor (test_env (mock_http [])) (Some mock_basket_user_data) None None JNone = Inl AttributeError"
    by (simp add: to_vendor_def Let_def)
  show ?thesis
    using from_vendor_mock [of "mock_http []"] news raise
    by (simp add: attribute_of_to_vendor_no_custom billable_subscription_groups g1 g2)
qed

text \<open>
  C7, amended. When \<^verbatim>\<open>from_vendor\<close> returns a local record \<open>L\<close> for a vendor
  record whose \<^verbatim>\<open>email_subscribe\<close> is one of the vendor's three states, then
  \<^verbatim>\<open>to_vendor\<close>, given \<open>L\<close> as the update record, or as the existing record with
  an empty update, yields a payload whose \<^verbatim>\<open>email_subscribe\<close> is the vendor
  record's; its \<^verbatim>\<open>subscription_groups\<close> list is empty, whatever the groups were.
\<close>

theorem round_trip_email_subscribe:
  assumes fv: "from_vendor e (JDict R) G = Inr L"
    and es: "dict_get R ''email_subscribe'' \<in> {JStr ''opted_in'', JStr ''unsubscribed'', JStr ''subscribed''}"
  shows "attribute_of (to_vendor e None (Some L) None events) ''email_subscribe'' = Some (dict_get R ''email_subscribe'')
     \<and> attribute_of (to_vendor e (Some L) (Some []) None events) ''email_subscribe'' = Some (dict_get R ''email_subscribe'')
     \<and> attribute_of (to_vendor e None (Some L) None events) ''subscription_groups'' = Some (JList [])
     \<and> attribute_of (to_vendor e (Some L) (Some []) None events) ''subscription_groups'' = Some (JList [])"
proof -
  note m = from_vendor_merged [OF fv]
  from m(5) obtain slugs where news: "dict_get L ''newsletters'' = JList slugs" ..
  have g1: "newsletters_groups e L = []"
    by (simp add: newsletters_groups_def news)
  have g2: "newsletters_groups e [] = []"
    by (simp add: newsletters_groups_def dict_get_def dict_get_default_def)
  have s1: "attribute_of (to_vendor e None (Some L) None events) ''email_subscribe'' = Some (dict_get R ''email_subscribe'')"
    using es by (auto simp: attribute_of_to_vendor_no_custom billable_email_subscribe or_empty_def m(1,2))
  have s2: "attribute_of (to_vendor e (Some L) (Some []) None events) ''email_subscribe'' = Some (dict_get R ''email_subscribe'')"
    using es by (auto simp: attribute_of_to_vendor_no_custom billable_email_subscribe or_empty_def dict_merge_Nil m(3,4))
  have s3: "attribute_of (to_vendor e None (Some L) None events) ''subscription_groups'' = Some (JList [])"
    by (simp add: attribute_of_to_vendor_no_custom billable_subscription_groups g1)
  have s4: "attribute_of (to_vendor e (Some L) (Some []) None events) ''subscription_groups'' = Some (JList [])"
    by (simp add: attribute_of_to_vendor_no_custom billable_subscription_groups g2)
  from s1 s2 s3 s4 show ?thesis by simp
qed

theorem round_trip_email_subscribe_witness:
  "attribute_of (to_vendor (test_env (mock_http [])) None (Some mock_basket_user_data) None JNone) ''email_subscribe''
      = Some (JStr ''opted_in'')
   \<and> attribute_of (to_vendor (test_env (mock_http [])) (Some mock_basket_user_data) (Some []) None JNone) ''email_subscribe''
      = Some (JStr ''opted_in'')
   \<and> attribute_of (to_vendor (test_env (mock_http [])) None (Some mock_basket_user_data) None JNone) ''subscription_groups''
      = Some (JList [])
   \<and> attribute_of (to_vendor (test_env (mock_http [])) (Some mock_basket_user_data) (Some []) None JNone) ''subscription_groups''
      = Some (JList [])"
proof -
  have es: "dict_get mock_braze_user_data ''email_subscribe'' = JStr ''opted_in''"
    by (simp add: mock_braze_user_data_def dict_get_def dict_get_default_def)
  then have mem: "dict_get mock_braze_user_data ''email_subscribe''
      \<in> {JStr ''opted_in'', JStr ''unsubscribed'', JStr ''subscribed''}"
    by simp
  from round_trip_email_subscribe [OF from_vendor_mock mem, of "mock_http []" JNone] es
  show ?thesis by simp
qed

section \<open>\<^verbatim>\<open>_update_existing_only\<close>\<close>

text \<open>
  What does hold of C10: without a caller's override the payload of \<^verbatim>\<open>to_vendor\<close>
  carries \<^verbatim>\<open>_update_existing_only: true\<close>, and for a record with an \<^verbatim>\<open>email_id\<close>
  \<^verbatim>\<open>add\<close> saves the payload of \<^verbatim>\<open>to_vendor\<close> with the flag overridden to false.
\<close>

lemma to_vendor_update_existing_only:
  assumes "''_update_existing_only'' \<notin> fst ` set (or_empty custom_attributes)"
  shows "attribute_of (to_vendor e basket_user_data (Some u) custom_attributes events) ''_update_existing_only''
           = Some (JBool True)"
  using assms
  by (simp add: attribute_of_to_vendor map_of_dict_merge_other billable_update_existing_only)

lemma add_with_email_id:
  assumes "truthy (dict_get data ''email_id'')"
  shows "\<exists>p. to_vendor e None (Some data) (Some [(''_update_existing_only'', JBool False)]) JNone = Inr p
     \<and> attribute_of (Inr p) ''_update_existing_only'' = Some (JBool False)
     \<and> add e c data log =
         (case save_user e c (JDict p) log of
            (Inl err, log1) \<Rightarrow> (Inl err, log1)
          | (Inr r, log1) \<Rightarrow> (Inr JNone, log1))"
proof -
  obtain p where p: "to_vendor e None (Some data) (Some [(''_update_existing_only'', JBool False)]) JNone = Inr p"
    by (simp add: to_vendor_Some)
  have "attribute_of (to_vendor e None (Some data) (Some [(''_update_existing_only'', JBool False)]) JNone)
      ''_update_existing_only'' = Some (JBool False)"
    by (simp add: attribute_of_to_vendor map_of_dict_merge or_empty_def)
  with p assms show ?thesis
    by (simp add: add_def)
qed

text \<open>
  What does hold of C3: with a truthy \<^verbatim>\<open>email_id\<close> the single attributes object is
  addressed by \<^verbatim>\<open>external_id\<close> and has neither a \<^verbatim>\<open>user_alias\<close> nor an
  \<^verbatim>\<open>_update_existing_only\<close> key.
\<close>

lemma track_user_addressed_by_external_id:
  assumes "truthy (dict_get d ''email_id'')"
  shows "\<exists>token. track_user_data e email JNone (Some d) =
     [(''attributes'',
       JList [JDict [(''email'', email), (''external_id'', dict_get d ''email_id''), (''basket_token'', token)]])]"
proof -
  from assms have "d \<noteq> []"
    by (auto simp: dict_get_def dict_get_default_def)
  with assms show ?thesis
    by (simp add: track_user_data_def and_pop_def Let_def split: prod.splits)
qed

end
